theory Spec2Isabelle
  imports Complex_Main "HOL-Library.Multiset"
begin

section \<open>Python values as the validation script sees them\<close>

text \<open>
  The script \<^verbatim>\<open>scripts/validate-pr.py\<close> works on the nested values that
  \<^verbatim>\<open>toml.load\<close> returns, and on \<^verbatim>\<open>None\<close>. It never checks a type, so the
  model keeps the dynamic typing: every operation of the script is a function on
  \<open>pyval\<close> that returns the exception Python would raise as \<open>Inl\<close>.

  A Python float is modelled by the number it denotes: a rational, an infinity or NaN.
  The script only compares floats, and IEEE comparisons are exact, so nothing is lost;
  \<open>-0.0\<close> and \<open>0.0\<close> compare equal and are both \<open>Finite 0\<close>. A character of a
  \<open>string\<close> stands for one code point of the Python string (code points below 256).
  A dict is an association list with distinct keys, in insertion order.
\<close>

datatype pyfloat = Finite rat | PosInf | NegInf | NaN

datatype pyval =
    PNone
  | PStr string
  | PInt int
  | PFloat pyfloat
  | PBool bool
  | PDate string
  | PList "pyval list"
  | PDict "(string \<times> pyval) list"

text \<open>
  The exceptions that can leave the script. \<open>LoadError\<close> is whatever
  \<^verbatim>\<open>toml.load(open(path))\<close> raises (a missing file, malformed TOML);
  \<open>DecodeArgError\<close> is what \<^verbatim>\<open>bech32m.bech32_decode\<close> raises on an argument
  that is not a string; \<open>SystemExit\<close> is \<^verbatim>\<open>exit(1)\<close>. \<open>OutsideModel\<close> is
  not a Python exception: it marks the one situation the model does not cover, a
  balances file whose \<^verbatim>\<open>token.NAM\<close> entry is not a table.
\<close>

datatype error =
    KeyError | TypeError | ValueError | OverflowError | IndexError
  | LoadError | DecodeArgError | SystemExit | OutsideModel

text \<open>
  The library functions the script calls and whose code is not part of the repository:
  the builtin \<^verbatim>\<open>float\<close> on a string (\<open>None\<close>: ValueError) and on an integer
  (\<open>None\<close>: OverflowError), and the human-readable part that
  \<^verbatim>\<open>bech32m.bech32_decode\<close> returns for a string (\<open>None\<close> when decoding fails).
  Every theorem below holds for all such functions.
\<close>

record pylib =
  float_of_str :: "string \<Rightarrow> pyfloat option"
  float_of_int :: "int \<Rightarrow> pyfloat option"
  bech32_hrp :: "string \<Rightarrow> string option"

definition ebind :: "error + 'a \<Rightarrow> ('a \<Rightarrow> error + 'b) \<Rightarrow> error + 'b" where
  "ebind m f = (case m of Inl e \<Rightarrow> Inl e | Inr x \<Rightarrow> f x)"

subsection \<open>Comparisons\<close>

fun fl_le :: "pyfloat \<Rightarrow> pyfloat \<Rightarrow> bool" where
  "fl_le (Finite a) (Finite b) = (a \<le> b)"
| "fl_le (Finite a) PosInf = True"
| "fl_le (Finite a) NegInf = False"
| "fl_le PosInf PosInf = True"
| "fl_le PosInf (Finite b) = False"
| "fl_le PosInf NegInf = False"
| "fl_le NegInf (Finite b) = True"
| "fl_le NegInf PosInf = True"
| "fl_le NegInf NegInf = True"
| "fl_le NaN y = False"
| "fl_le x NaN = False"

fun fl_lt :: "pyfloat \<Rightarrow> pyfloat \<Rightarrow> bool" where
  "fl_lt (Finite a) (Finite b) = (a < b)"
| "fl_lt (Finite a) PosInf = True"
| "fl_lt (Finite a) NegInf = False"
| "fl_lt PosInf y = False"
| "fl_lt NegInf (Finite b) = True"
| "fl_lt NegInf PosInf = True"
| "fl_lt NegInf NegInf = False"
| "fl_lt NaN y = False"
| "fl_lt x NaN = False"

text \<open>\<^verbatim>\<open>x == 0\<close> for a float \<open>x\<close>.\<close>

definition fl_is_zero :: "pyfloat \<Rightarrow> bool" where
  "fl_is_zero x = (x = Finite 0)"

text \<open>
  The number an int, float or bool denotes; Python compares these with each other
  exactly, and raises TypeError when one side of \<^verbatim>\<open><\<close> or \<^verbatim>\<open><=\<close> is an int
  and the other is none of the three.
\<close>

fun py_num :: "pyval \<Rightarrow> pyfloat option" where
  "py_num (PInt i) = Some (Finite (of_int i))"
| "py_num (PFloat x) = Some x"
| "py_num (PBool b) = Some (Finite (if b then 1 else 0))"
| "py_num v = None"

definition int_lt :: "int \<Rightarrow> pyval \<Rightarrow> error + bool" where
  "int_lt n v = (case py_num v of None \<Rightarrow> Inl TypeError
                 | Some x \<Rightarrow> Inr (fl_lt (Finite (of_int n)) x))"

definition le_int :: "pyval \<Rightarrow> int \<Rightarrow> error + bool" where
  "le_int v n = (case py_num v of None \<Rightarrow> Inl TypeError
                 | Some x \<Rightarrow> Inr (fl_le x (Finite (of_int n))))"

subsection \<open>Containers and strings\<close>

fun starts_with :: "string \<Rightarrow> string \<Rightarrow> bool" where
  "starts_with [] s = True"
| "starts_with (c # p) [] = False"
| "starts_with (c # p) (d # s) = (c = d \<and> starts_with p s)"

text \<open>\<^verbatim>\<open>p in s\<close> for two strings.\<close>

fun substr :: "string \<Rightarrow> string \<Rightarrow> bool" where
  "substr p [] = (p = [])"
| "substr p (d # s) = (starts_with p (d # s) \<or> substr p s)"

text \<open>\<^verbatim>\<open>field in v\<close> for a string literal \<open>field\<close>.\<close>

fun py_in :: "string \<Rightarrow> pyval \<Rightarrow> error + bool" where
  "py_in f (PDict kv) = Inr (map_of kv f \<noteq> None)"
| "py_in f (PList xs) = Inr (PStr f \<in> set xs)"
| "py_in f (PStr s) = Inr (substr f s)"
| "py_in f v = Inl TypeError"

text \<open>\<^verbatim>\<open>v[key]\<close> for a string \<open>key\<close>: only a dict can be indexed by a string.\<close>

fun py_getitem :: "pyval \<Rightarrow> string \<Rightarrow> error + pyval" where
  "py_getitem (PDict kv) k = (case map_of kv k of None \<Rightarrow> Inl KeyError | Some v \<Rightarrow> Inr v)"
| "py_getitem v k = Inl TypeError"

fun py_len :: "pyval \<Rightarrow> error + int" where
  "py_len (PStr s) = Inr (int (length s))"
| "py_len (PList xs) = Inr (int (length xs))"
| "py_len (PDict kv) = Inr (int (length kv))"
| "py_len v = Inl TypeError"

text \<open>The elements a \<^verbatim>\<open>for\<close> loop over \<open>v\<close> visits.\<close>

fun py_iter :: "pyval \<Rightarrow> error + pyval list" where
  "py_iter (PList xs) = Inr xs"
| "py_iter (PStr s) = Inr (map (\<lambda>c. PStr [c]) s)"
| "py_iter (PDict kv) = Inr (map (\<lambda>p. PStr (fst p)) kv)"
| "py_iter v = Inl TypeError"

text \<open>
  A \<^verbatim>\<open>for\<close> loop whose body either returns False from the enclosing function
  (\<open>Inr False\<close>), raises (\<open>Inl\<close>) or goes on to the next element (\<open>Inr True\<close>);
  the function returns True after the loop.
\<close>

fun for_each :: "('a \<Rightarrow> error + bool) \<Rightarrow> 'a list \<Rightarrow> error + bool" where
  "for_each body [] = Inr True"
| "for_each body (x # xs) =
     (case body x of Inl e \<Rightarrow> Inl e
      | Inr ok \<Rightarrow> if ok then for_each body xs else Inr False)"

text \<open>\<^verbatim>\<open>for field in fields: if field not in v: return False\<close>\<close>

definition has_fields :: "string list \<Rightarrow> pyval \<Rightarrow> error + bool" where
  "has_fields names v = for_each (\<lambda>field. py_in field v) names"

text \<open>\<^verbatim>\<open>hrp, _, _ = bech32m.bech32_decode(x)\<close>\<close>

fun bech32_decode :: "pylib \<Rightarrow> pyval \<Rightarrow> error + string option" where
  "bech32_decode lib (PStr s) = Inr (bech32_hrp lib s)"
| "bech32_decode lib v = Inl DecodeArgError"

text \<open>\<^verbatim>\<open>hrp, _, _ = bech32m.bech32_decode(x); if not hrp == want: return False\<close>\<close>

definition hrp_is :: "pylib \<Rightarrow> string \<Rightarrow> pyval \<Rightarrow> error + bool" where
  "hrp_is lib want x = ebind (bech32_decode lib x) (\<lambda>hrp. Inr (hrp = Some want))"

section \<open>The account validator\<close>

text \<open>The body of the loop of \<^verbatim>\<open>check_if_account_is_valid\<close> (lines 53 to 73).\<close>

definition account_entry :: "pylib \<Rightarrow> pyval \<Rightarrow> error + bool" where
  "account_entry lib account =
     ebind (has_fields [''vp'', ''threshold'', ''public_keys''] account) (\<lambda>present.
     if \<not> present then Inr False else
     ebind (py_getitem account ''vp'') (\<lambda>vp.
     ebind (py_getitem account ''threshold'') (\<lambda>threshold.
     ebind (py_getitem account ''public_keys'') (\<lambda>public_keys.
     if vp \<noteq> PStr ''vp_user'' then Inr False else
     ebind (py_len public_keys) (\<lambda>n.
     ebind (int_lt n threshold) (\<lambda>too_few.
     if too_few then Inr False else
     ebind (le_int threshold 0) (\<lambda>not_positive.
     if not_positive then Inr False else
     ebind (py_iter public_keys) (\<lambda>keys.
     for_each (hrp_is lib ''tnam'') keys))))))))"

definition check_if_account_is_valid :: "pylib \<Rightarrow> pyval \<Rightarrow> error + bool" where
  "check_if_account_is_valid lib accounts_toml =
     ebind (py_getitem accounts_toml ''established_account'') (\<lambda>seq.
     ebind (py_iter seq) (\<lambda>accounts.
     for_each (account_entry lib) accounts))"

section \<open>The validator validator\<close>

text \<open>
  \<^verbatim>\<open>float(v)\<close>: a float is returned as it is, a bool becomes 1.0 or 0.0, strings and
  integers go through the library, None, dates, lists and dicts raise TypeError.
\<close>

fun py_float :: "pylib \<Rightarrow> pyval \<Rightarrow> error + pyfloat" where
  "py_float lib (PStr s) = (case float_of_str lib s of None \<Rightarrow> Inl ValueError | Some x \<Rightarrow> Inr x)"
| "py_float lib (PInt i) = (case float_of_int lib i of None \<Rightarrow> Inl OverflowError | Some x \<Rightarrow> Inr x)"
| "py_float lib (PFloat x) = Inr x"
| "py_float lib (PBool b) = Inr (Finite (if b then 1 else 0))"
| "py_float lib v = Inl TypeError"

text \<open>
  \<^verbatim>\<open>EMAIL_PATTERN = r"^\S+@\S+\.\S+$"\<close>, used with \<^verbatim>\<open>re.search\<close>. \<^verbatim>\<open>\S\<close> is any
  character that is not whitespace; \<^verbatim>\<open>$\<close> matches at the end of the string and
  before a newline that ends the string. The three functions follow the pattern from
  right to left: \<open>email_tld\<close> is \<^verbatim>\<open>\S+$\<close>, \<open>email_domain\<close> is
  \<^verbatim>\<open>\S+\.\S+$\<close>, \<open>email_match\<close> is the whole pattern.
\<close>

definition is_space :: "char \<Rightarrow> bool" where
  "is_space c = ((of_char c :: nat) \<in> {9, 10, 11, 12, 13, 28, 29, 30, 31, 32, 133, 160})"

definition newline :: char where
  "newline = CHR 0x0A"

fun email_tld :: "string \<Rightarrow> bool" where
  "email_tld [] = False"
| "email_tld (c # cs) = (\<not> is_space c \<and> (cs = [] \<or> cs = [newline] \<or> email_tld cs))"

fun email_domain :: "string \<Rightarrow> bool" where
  "email_domain [] = False"
| "email_domain (c # cs) =
     (\<not> is_space c \<and>
      ((case cs of [] \<Rightarrow> False | d # ds \<Rightarrow> d = CHR ''.'' \<and> email_tld ds) \<or> email_domain cs))"

fun email_match :: "string \<Rightarrow> bool" where
  "email_match [] = False"
| "email_match (c # cs) =
     (\<not> is_space c \<and>
      ((case cs of [] \<Rightarrow> False | d # ds \<Rightarrow> d = CHR ''@'' \<and> email_domain ds) \<or> email_match cs))"

text \<open>\<^verbatim>\<open>re.search(EMAIL_PATTERN, email)\<close> as a truth value; anything but a string raises.\<close>

fun re_search_email :: "pyval \<Rightarrow> error + bool" where
  "re_search_email (PStr s) = Inr (email_match s)"
| "re_search_email v = Inl TypeError"

text \<open>
  \<^verbatim>\<open>for field in names: for sub_field in subs: if sub_field not in v[field]: return False\<close>
\<close>

definition has_sub_fields :: "string list \<Rightarrow> string list \<Rightarrow> pyval \<Rightarrow> error + bool" where
  "has_sub_fields names subs v =
     for_each (\<lambda>field.
       for_each (\<lambda>sub_field. ebind (py_getitem v field) (py_in sub_field)) subs) names"

text \<open>\<^verbatim>\<open>0 <= x <= 1\<close>\<close>

definition in_unit_interval :: "pyfloat \<Rightarrow> bool" where
  "in_unit_interval x = (fl_le (Finite 0) x \<and> fl_le x (Finite 1))"

text \<open>
  The first part of the loop body of \<^verbatim>\<open>check_if_validator_is_valid\<close> (lines 86 to
  101): the eleven fields, the two sub-fields of the five keys, the email of the
  metadata, and at least one signature.
\<close>

definition validator_shape :: "pyval \<Rightarrow> error + bool" where
  "validator_shape validator =
     ebind (has_fields [''consensus_key'', ''protocol_key'', ''tendermint_node_key'',
                        ''eth_hot_key'', ''eth_cold_key'', ''metadata'', ''signatures'',
                        ''address'', ''vp'', ''commission_rate'',
                        ''max_commission_rate_change''] validator) (\<lambda>present.
     if \<not> present then Inr False else
     ebind (has_sub_fields [''consensus_key'', ''protocol_key'', ''tendermint_node_key'',
                            ''eth_hot_key'', ''eth_cold_key'']
                           [''pk'', ''authorization''] validator) (\<lambda>keys_present.
     if \<not> keys_present then Inr False else
     ebind (has_sub_fields [''metadata''] [''email''] validator) (\<lambda>email_present.
     if \<not> email_present then Inr False else
     ebind (ebind (py_getitem validator ''signatures'') py_len) (\<lambda>n.
     if n \<le> 0 then Inr False else Inr True))))"

text \<open>The whole loop body (lines 86 to 125).\<close>

definition validator_entry :: "pylib \<Rightarrow> pyval \<Rightarrow> error + bool" where
  "validator_entry lib validator =
     ebind (validator_shape validator) (\<lambda>shaped.
     if \<not> shaped then Inr False else
     ebind (py_getitem validator ''vp'') (\<lambda>vp.
     ebind (ebind (py_getitem validator ''commission_rate'') (py_float lib)) (\<lambda>commission_rate.
     ebind (ebind (py_getitem validator ''max_commission_rate_change'') (py_float lib))
       (\<lambda>max_commission_rate_change.
     ebind (py_getitem validator ''address'') (\<lambda>address.
     ebind (ebind (py_getitem validator ''metadata'') (\<lambda>m. py_getitem m ''email'')) (\<lambda>email.
     if vp \<noteq> PStr ''vp_user'' then Inr False else
     if \<not> in_unit_interval commission_rate then Inr False else
     if \<not> in_unit_interval max_commission_rate_change then Inr False else
     ebind (re_search_email email) (\<lambda>matches.
     if \<not> matches then Inr False else
     hrp_is lib ''tnam'' address)))))))"

definition check_if_validator_is_valid :: "pylib \<Rightarrow> pyval \<Rightarrow> error + bool" where
  "check_if_validator_is_valid lib validators_toml =
     ebind (check_if_account_is_valid lib validators_toml) (\<lambda>is_valid.
     if \<not> is_valid then Inr False else
     ebind (py_in ''bond'' validators_toml) (\<lambda>has_bond.
     if has_bond then Inr False else
     ebind (py_getitem validators_toml ''validator_account'') (\<lambda>seq.
     ebind (py_iter seq) (\<lambda>validators.
     for_each (validator_entry lib) validators))))"

section \<open>The bond validator\<close>

text \<open>
  \<^verbatim>\<open>float(balances[source]) if source in balances else 0\<close>, for a balances table that
  is a dict with string keys (the type the function declares): a list or dict as
  \<open>source\<close> is unhashable, any other value that is not a string is not a key.
\<close>

definition balance_of :: "pylib \<Rightarrow> (string \<times> pyval) list \<Rightarrow> pyval \<Rightarrow> error + pyfloat" where
  "balance_of lib balances source =
     (case source of
        PStr s \<Rightarrow> (case map_of balances s of None \<Rightarrow> Inr (Finite 0)
                   | Some b \<Rightarrow> py_float lib b)
      | PList xs \<Rightarrow> Inl TypeError
      | PDict kv \<Rightarrow> Inl TypeError
      | _ \<Rightarrow> Inr (Finite 0))"

text \<open>\<^verbatim>\<open>x >= y\<close>\<close>

definition fl_ge :: "pyfloat \<Rightarrow> pyfloat \<Rightarrow> bool" where
  "fl_ge x y = fl_le y x"

text \<open>
  The first part of the loop body of \<^verbatim>\<open>check_if_bond_is_valid\<close> (lines 132 to 137):
  the four fields and at least one signature.
\<close>

definition bond_shape :: "pyval \<Rightarrow> error + bool" where
  "bond_shape bond =
     ebind (has_fields [''source'', ''validator'', ''amount'', ''signatures''] bond) (\<lambda>present.
     if \<not> present then Inr False else
     ebind (ebind (py_getitem bond ''signatures'') py_len) (\<lambda>n.
     if n \<le> 0 then Inr False else Inr True))"

text \<open>The whole loop body (lines 132 to 154).\<close>

definition bond_entry :: "pylib \<Rightarrow> (string \<times> pyval) list \<Rightarrow> pyval \<Rightarrow> error + bool" where
  "bond_entry lib balances bond =
     ebind (bond_shape bond) (\<lambda>shaped.
     if \<not> shaped then Inr False else
     ebind (py_getitem bond ''source'') (\<lambda>source.
     ebind (py_getitem bond ''validator'') (\<lambda>validator.
     ebind (ebind (py_getitem bond ''amount'') (py_float lib)) (\<lambda>amount.
     ebind (balance_of lib balances source) (\<lambda>balance.
     if fl_is_zero balance \<or> \<not> fl_ge balance amount then Inr False else
     ebind (hrp_is lib ''tkpnam'' source) (\<lambda>source_ok.
     if \<not> source_ok then Inr False else
     hrp_is lib ''tnam'' validator))))))"

definition check_if_bond_is_valid ::
    "pylib \<Rightarrow> pyval \<Rightarrow> (string \<times> pyval) list \<Rightarrow> error + bool" where
  "check_if_bond_is_valid lib bonds_toml balances =
     ebind (py_getitem bonds_toml ''bond'') (\<lambda>seq.
     ebind (py_iter seq) (\<lambda>bonds.
     for_each (bond_entry lib balances) bonds))"

section \<open>The dispatcher\<close>

text \<open>
  What the script reads and writes. \<open>files\<close> gives, for a path, what
  \<^verbatim>\<open>toml.load(open(path, "r"))\<close> returns or raises; \<open>environ\<close> is the process
  environment; \<open>git_diff\<close> gives, for a \<^verbatim>\<open>--diff-filter\<close>, the return code of
  \<^verbatim>\<open>git diff --name-only\<close> and the decoded lines of its output. \<open>loads\<close> records
  every path given to \<^verbatim>\<open>toml.load\<close>, in order, and \<open>stdout\<close> every printed line.
\<close>

record world =
  files :: "string \<Rightarrow> error + pyval"
  environ :: "string \<Rightarrow> string option"
  git_diff :: "string \<Rightarrow> int \<times> string list"
  loads :: "string list"
  stdout :: "string list"

definition load_toml :: "string \<Rightarrow> world \<Rightarrow> world \<times> (error + pyval)" where
  "load_toml path w = (w\<lparr>loads := loads w @ [path]\<rparr>, files w path)"

definition print_line :: "string \<Rightarrow> world \<Rightarrow> world" where
  "print_line line w = w\<lparr>stdout := stdout w @ [line]\<rparr>"

text \<open>\<^verbatim>\<open>read_unsafe_toml\<close>: any exception of the loader becomes None.\<close>

definition read_unsafe_toml :: "string \<Rightarrow> world \<Rightarrow> world \<times> pyval" where
  "read_unsafe_toml file_path w =
     (case load_toml file_path w of
        (w', Inl e) \<Rightarrow> (w', PNone)
      | (w', Inr v) \<Rightarrow> (w', v))"

text \<open>The truth value of a value in a condition.\<close>

fun truthy :: "pyval \<Rightarrow> bool" where
  "truthy PNone = False"
| "truthy (PStr s) = (s \<noteq> [])"
| "truthy (PInt i) = (i \<noteq> 0)"
| "truthy (PFloat x) = (\<not> fl_is_zero x)"
| "truthy (PBool b) = b"
| "truthy (PDate d) = True"
| "truthy (PList xs) = (xs \<noteq> [])"
| "truthy (PDict kv) = (kv \<noteq> [])"

text \<open>
  One branch of \<^verbatim>\<open>validate_toml\<close> (lines 164 to 169, 171 to 176, 178 to 183) followed
  by line 187. The three branches differ in the validator \<open>check\<close> and in the test
  \<open>missing\<close> on the loaded value (\<^verbatim>\<open>is None\<close> for accounts and validators,
  \<^verbatim>\<open>not bonds_toml\<close> for bonds). No branch returns after printing: the validator is
  called on whatever was loaded, and line 187 is reached whenever it returns.
\<close>

definition run_track ::
    "(pyval \<Rightarrow> error + bool) \<Rightarrow> (pyval \<Rightarrow> bool) \<Rightarrow> string \<Rightarrow> world \<Rightarrow> world \<times> (error + pyval)" where
  "run_track check missing file w =
     (case read_unsafe_toml file w of (w1, loaded) \<Rightarrow>
        let w2 = (if missing loaded then print_line (file @ '' is NOT valid.'') w1 else w1)
        in (case check loaded of
              Inl e \<Rightarrow> (w2, Inl e)
            | Inr is_valid \<Rightarrow>
                let w3 = (if \<not> is_valid then print_line (file @ '' is NOT valid.'') w2 else w2)
                in (print_line (file @ '' is valid.'') w3, Inr PNone)))"

text \<open>
  The balances table handed to the bond validator. The model covers a table
  (\<^verbatim>\<open>[token.NAM]\<close> in the balances file); anything else is \<open>OutsideModel\<close>.
\<close>

definition bond_check :: "pylib \<Rightarrow> pyval \<Rightarrow> pyval \<Rightarrow> error + bool" where
  "bond_check lib nam_balances bonds_toml =
     (case nam_balances of
        PDict kv \<Rightarrow> check_if_bond_is_valid lib bonds_toml kv
      | _ \<Rightarrow> Inl OutsideModel)"

text \<open>
  \<^verbatim>\<open>validate_toml\<close>. It returns False for a file it skips and None otherwise; the
  balances file is loaded at the start of every call.
\<close>

definition validate_toml ::
    "pylib \<Rightarrow> string \<Rightarrow> pyval \<Rightarrow> pyval \<Rightarrow> pyval \<Rightarrow> world \<Rightarrow> world \<times> (error + pyval)" where
  "validate_toml lib file can_apply_for_validators can_apply_for_bonds can_apply_for_accounts w =
     (case load_toml ''genesis/balances.toml'' w of
        (w1, Inl e) \<Rightarrow> (w1, Inl e)
      | (w1, Inr balances) \<Rightarrow>
          (case ebind (py_getitem balances ''token'') (\<lambda>token. py_getitem token ''NAM'') of
             Inl e \<Rightarrow> (w1, Inl e)
           | Inr nam_balances \<Rightarrow>
               if substr ''-account.toml'' file \<and> truthy can_apply_for_accounts then
                 run_track (check_if_account_is_valid lib) (\<lambda>v. v = PNone) file w1
               else if substr ''-validator.toml'' file \<and> truthy can_apply_for_validators then
                 run_track (check_if_validator_is_valid lib) (\<lambda>v. v = PNone) file w1
               else if substr ''-bond.toml'' file \<and> truthy can_apply_for_bonds then
                 run_track (bond_check lib nam_balances) (\<lambda>v. \<not> truthy v) file w1
               else (w1, Inr (PBool False))))"

section \<open>The run\<close>

text \<open>
  \<^verbatim>\<open>FILE_NAME_PATTER = r"transactions/(.*)-(validator|bond|account).toml"\<close>, used with
  \<^verbatim>\<open>re.search\<close>: the pattern may start anywhere, \<^verbatim>\<open>.\<close> is any character but a
  newline, also before \<^verbatim>\<open>toml\<close>. \<open>kind_here\<close> matches from the \<^verbatim>\<open>-\<close> on,
  \<open>alias_then_kind\<close> from \<^verbatim>\<open>(.*)\<close> on.
\<close>

definition FILE_NAME_PATTER :: string where
  "FILE_NAME_PATTER = ''transactions/(.*)-(validator|bond|account).toml''"

fun strip_prefix :: "string \<Rightarrow> string \<Rightarrow> string option" where
  "strip_prefix [] s = Some s"
| "strip_prefix (c # p) [] = None"
| "strip_prefix (c # p) (d # s) = (if c = d then strip_prefix p s else None)"

definition kind_here :: "string \<Rightarrow> bool" where
  "kind_here s =
     (\<exists>kind \<in> set [''validator'', ''bond'', ''account''].
        case strip_prefix (''-'' @ kind) s of
          Some (c # rest) \<Rightarrow> c \<noteq> newline \<and> starts_with ''toml'' rest
        | _ \<Rightarrow> False)"

fun alias_then_kind :: "string \<Rightarrow> bool" where
  "alias_then_kind [] = False"
| "alias_then_kind (c # cs) = (kind_here (c # cs) \<or> (c \<noteq> newline \<and> alias_then_kind cs))"

fun file_name_search :: "string \<Rightarrow> bool" where
  "file_name_search [] = False"
| "file_name_search (c # cs) =
     ((case strip_prefix ''transactions/'' (c # cs) of
         Some rest \<Rightarrow> alias_then_kind rest
       | None \<Rightarrow> False) \<or> file_name_search cs)"

text \<open>\<^verbatim>\<open>s.split(sep)\<close> for a separator of one character.\<close>

fun split_on :: "char \<Rightarrow> string \<Rightarrow> string list" where
  "split_on sep [] = [[]]"
| "split_on sep (c # cs) =
     (if c = sep then [] # split_on sep cs
      else (case split_on sep cs of [] \<Rightarrow> [[c]] | part # parts \<Rightarrow> (c # part) # parts))"

text \<open>\<^verbatim>\<open>file.split('/')[1].split('.')[0]\<close>\<close>

definition file_alias_of :: "string \<Rightarrow> error + string" where
  "file_alias_of file =
     (case split_on CHR ''/'' file of
        first # second # parts \<Rightarrow>
          (case split_on CHR ''.'' second of [] \<Rightarrow> Inl IndexError | part # others \<Rightarrow> Inr part)
      | _ \<Rightarrow> Inl IndexError)"

text \<open>\<^verbatim>\<open>s.lower()\<close> on code points below 256.\<close>

definition lower_char :: "char \<Rightarrow> char" where
  "lower_char c =
     (let n = (of_char c :: nat)
      in if (65 \<le> n \<and> n \<le> 90) \<or> (192 \<le> n \<and> n \<le> 222 \<and> n \<noteq> 215)
         then char_of (n + 32) else c)"

definition py_lower :: "string \<Rightarrow> string" where
  "py_lower s = map lower_char s"

text \<open>The decimal digits of a number, as \<^verbatim>\<open>"{}".format(n)\<close> prints them.\<close>

fun show_nat :: "nat \<Rightarrow> string" where
  "show_nat n =
     (if n < 10 then [char_of (48 + n)]
      else show_nat (n div 10) @ [char_of (48 + n mod 10)])"

declare show_nat.simps [simp del]

definition check_no_deleted_or_modified_files :: "world \<Rightarrow> error + unit" where
  "check_no_deleted_or_modified_files w =
     (case git_diff w ''DM'' of (returncode, deleted_files) \<Rightarrow>
        if returncode > 0 then Inl SystemExit
        else if deleted_files \<noteq> [] then Inl SystemExit
        else Inr ())"

definition get_all_created_files :: "world \<Rightarrow> error + string list" where
  "get_all_created_files w =
     (case git_diff w ''A'' of (returncode, created) \<Rightarrow>
        if returncode > 0 then Inl SystemExit else Inr created)"

definition env_get :: "world \<Rightarrow> string \<Rightarrow> pyval" where
  "env_get w name = (case environ w name of None \<Rightarrow> PNone | Some s \<Rightarrow> PStr s)"

definition read_env :: "world \<Rightarrow> pyval \<times> pyval \<times> pyval" where
  "read_env w =
     (env_get w ''CAN_ADD_VALIDATORS'', env_get w ''CAN_ADD_BONDS'', env_get w ''CAN_ADD_ACCOUNTS'')"

definition get_alias :: "world \<Rightarrow> error + string" where
  "get_alias w = (case environ w ''ALIAS'' of None \<Rightarrow> Inl SystemExit | Some alias \<Rightarrow> Inr alias)"

text \<open>The file is left out by line 211: \<^verbatim>\<open>'scripts' in file or 'yml' in file\<close>.\<close>

definition passed_over :: "string \<Rightarrow> bool" where
  "passed_over file = (substr ''scripts'' file \<or> substr ''yml'' file)"

text \<open>The loop of \<^verbatim>\<open>main\<close> (lines 199 to 214).\<close>

fun main_loop ::
    "pylib \<Rightarrow> pyval \<Rightarrow> pyval \<Rightarrow> pyval \<Rightarrow> string \<Rightarrow> string list \<Rightarrow> world \<Rightarrow> world \<times> (error + unit)" where
  "main_loop lib cv cb ca alias [] w = (w, Inr ())"
| "main_loop lib cv cb ca alias (file # rest) w =
     (if \<not> file_name_search file then
        (print_line (file @ '' doesn'' @ [CHR 0x27] @ ''t match pattern '' @ FILE_NAME_PATTER) w,
         Inl SystemExit)
      else
        (case file_alias_of file of
           Inl e \<Rightarrow> (w, Inl e)
         | Inr file_alias \<Rightarrow>
             if \<not> substr (py_lower alias) (py_lower file_alias) then (w, Inl SystemExit)
             else
               let w1 = print_line (file @ '' is allowed, checking if its valid...'') w
               in if passed_over file then main_loop lib cv cb ca alias rest w1
                  else (case validate_toml lib file cv cb ca w1 of
                          (w2, Inl e) \<Rightarrow> (w2, Inl e)
                        | (w2, Inr r) \<Rightarrow> main_loop lib cv cb ca alias rest w2)))"

definition main :: "pylib \<Rightarrow> world \<Rightarrow> world \<times> (error + unit)" where
  "main lib w =
     (case check_no_deleted_or_modified_files w of
        Inl e \<Rightarrow> (w, Inl e)
      | Inr u \<Rightarrow>
          (case read_env w of (can_apply_for_validators, can_apply_for_bonds, can_apply_for_accounts) \<Rightarrow>
           case get_all_created_files w of
             Inl e \<Rightarrow> (w, Inl e)
           | Inr changed_files \<Rightarrow>
               (case get_alias w of
                  Inl e \<Rightarrow> (w, Inl e)
                | Inr alias \<Rightarrow>
                    main_loop lib can_apply_for_validators can_apply_for_bonds
                      can_apply_for_accounts alias changed_files
                      (print_line (''Found '' @ show_nat (length changed_files) @
                                   '' file changed/added.'') w))))"

section \<open>Example inputs\<close>

text \<open>
  The library on the arguments of the examples. The three functions agree with Python's
  \<^verbatim>\<open>float\<close> and with \<^verbatim>\<open>bech32m.bech32_decode\<close> on the strings and integers that
  occur in the examples below (the three addresses carry valid Bech32m checksums); on
  other arguments their values are not meant. The general theorems do not use it.
\<close>

definition tnam_address :: string where
  "tnam_address = ''tnam1qqqsyqcyq5rqwzqfpg9scrgwpugpzysnzsf7k525''"

definition tkpnam_address :: string where
  "tkpnam_address = ''tkpnam1pg9scrgwpugpzysnzs23v9ccrydpk8qarcnzmdxt''"

definition cosmos_address :: string where
  "cosmos_address = ''cosmos1qqqsyqcyq5rqwzqfpg9scrgwpugpzysnk2pk5m''"

definition example_lib :: pylib where
  "example_lib = \<lparr>
     float_of_str = map_of [(''100'', Finite 100), (''50'', Finite 50), (''0'', Finite 0),
                            (''-5'', Finite (- 5)), (''0.5'', Finite (1 / 2)),
                            (''1.0'', Finite 1), (''nan'', NaN)],
     float_of_int = (\<lambda>i. if \<bar>i\<bar> \<le> 9007199254740992 then Some (Finite (of_int i)) else None),
     bech32_hrp = map_of [(tnam_address, ''tnam''), (tkpnam_address, ''tkpnam''),
                          (cosmos_address, ''cosmos'')] \<rparr>"

text \<open>
  A world for the examples: \<open>docs\<close> are the files that load, every other path fails to
  load; \<open>created\<close> are the added files git reports; nothing was deleted or modified;
  the alias is \<open>alice\<close> and the three capability variables are set.
\<close>

definition example_world :: "(string \<times> pyval) list \<Rightarrow> string list \<Rightarrow> world" where
  "example_world docs created = \<lparr>
     files = (\<lambda>path. case map_of docs path of None \<Rightarrow> Inl LoadError | Some v \<Rightarrow> Inr v),
     environ = map_of [(''ALIAS'', ''alice''), (''CAN_ADD_VALIDATORS'', ''true''),
                       (''CAN_ADD_BONDS'', ''true''), (''CAN_ADD_ACCOUNTS'', ''true'')],
     git_diff = (\<lambda>diff_filter. if diff_filter = ''A'' then (0, created) else (0, [])),
     loads = [],
     stdout = [] \<rparr>"

definition example_nam_balances :: "(string \<times> pyval) list" where
  "example_nam_balances = [(tkpnam_address, PStr ''100'')]"

definition example_balances :: pyval where
  "example_balances = PDict [(''token'', PDict [(''NAM'', PDict example_nam_balances)])]"

text \<open>An account entry that passes, one with a wrong \<open>vp\<close>, and one whose threshold is a string.\<close>

definition good_account :: pyval where
  "good_account = PDict [(''vp'', PStr ''vp_user''), (''threshold'', PInt 1),
                         (''public_keys'', PList [PStr tnam_address])]"

definition admin_account :: pyval where
  "admin_account = PDict [(''vp'', PStr ''vp_admin''), (''threshold'', PInt 1),
                          (''public_keys'', PList [PStr tnam_address])]"

definition text_threshold_account :: pyval where
  "text_threshold_account = PDict [(''vp'', PStr ''vp_user''), (''threshold'', PStr ''x''),
                                   (''public_keys'', PList [])]"

text \<open>A validator entry with the given two rates and every other field in order.\<close>

definition key_slot :: pyval where
  "key_slot = PDict [(''pk'', PStr ''key''), (''authorization'', PStr ''auth'')]"

definition validator_with :: "pyval \<Rightarrow> pyval \<Rightarrow> (string \<times> pyval) list" where
  "validator_with rate change =
     [(''consensus_key'', key_slot), (''protocol_key'', key_slot),
      (''tendermint_node_key'', key_slot), (''eth_hot_key'', key_slot),
      (''eth_cold_key'', key_slot),
      (''metadata'', PDict [(''email'', PStr ''alice@example.org'')]),
      (''signatures'', PList [PStr ''sig'']),
      (''address'', PStr tnam_address), (''vp'', PStr ''vp_user''),
      (''commission_rate'', rate), (''max_commission_rate_change'', change)]"

definition validator_record :: "pyval \<Rightarrow> pyval \<Rightarrow> (string \<times> pyval) list" where
  "validator_record rate change =
     [(''established_account'', PList [good_account]),
      (''validator_account'', PList [PDict (validator_with rate change)])]"

text \<open>A bond entry of the given amount from the address with a recorded balance of 100.\<close>

definition bond_with :: "pyval \<Rightarrow> (string \<times> pyval) list" where
  "bond_with amount =
     [(''source'', PStr tkpnam_address), (''validator'', PStr tnam_address),
      (''amount'', amount), (''signatures'', PList [PStr ''sig''])]"

definition bond_record :: "pyval \<Rightarrow> pyval" where
  "bond_record amount = PDict [(''bond'', PList [PDict (bond_with amount)])]"

text \<open>The doubles nearest to 1.0001 and to -0.0001.\<close>

definition just_above_one :: pyfloat where
  "just_above_one = Finite (4504049987333233 / 4503599627370496)"

definition just_below_zero :: pyfloat where
  "just_below_zero = Finite (- (7378697629483821 / 73786976294838206464))"

text \<open>
  A world with a balances file, an account file whose only entry has the wrong \<open>vp\<close>,
  and two bond files, the two bond files being the files added. The files of
  \<open>carol\<close> used below are not in it: loading them fails.
\<close>

definition dispatch_world :: world where
  "dispatch_world = example_world
     [(''genesis/balances.toml'', example_balances),
      (''transactions/alice-account.toml'',
         PDict [(''established_account'', PList [admin_account])]),
      (''transactions/alice-bond.toml'', bond_record (PStr ''50'')),
      (''transactions/alice2-bond.toml'', bond_record (PStr ''100''))]
     [''transactions/alice-bond.toml'', ''transactions/alice2-bond.toml'']"

section \<open>Properties\<close>

lemma ebind_Inl: "ebind (Inl e) f = Inl e"
  by (simp add: ebind_def)

lemma ebind_Inr: "ebind (Inr x) f = f x"
  by (simp add: ebind_def)

lemma for_each_all_pass:
  "(\<And>x. x \<in> set xs \<Longrightarrow> body x = Inr True) \<Longrightarrow> for_each body xs = Inr True"
  by (induction xs) simp_all

lemma for_each_True_iff:
  "for_each body xs = Inr True \<longleftrightarrow> (\<forall>x \<in> set xs. body x = Inr True)"
  by (induction xs) (auto split: sum.splits if_splits)

lemma for_each_first_failure:
  assumes "\<And>p. p \<in> set pre \<Longrightarrow> body p = Inr True" and "body x \<noteq> Inr True"
  shows "for_each body (pre @ x # post) = body x"
  using assms
proof (induction pre)
  case Nil
  then show ?case by (cases "body x") (auto split: sum.splits)
next
  case (Cons p pre)
  then show ?case by simp
qed

lemma for_each_one_open:
  assumes "\<And>p. p \<in> set pre \<Longrightarrow> body p = Inr True"
    and "\<And>p. p \<in> set post \<Longrightarrow> body p = Inr True"
    and "body x = Inr verdict"
  shows "for_each body (pre @ x # post) = Inr verdict"
proof (cases verdict)
  case True
  with assms have "\<forall>p \<in> set (pre @ x # post). body p = Inr True" by auto
  then show ?thesis using True by (simp only: for_each_True_iff)
next
  case False
  with assms(3) have "body x \<noteq> Inr True" by simp
  with assms(1) have "for_each body (pre @ x # post) = body x"
    by (rule for_each_first_failure)
  then show ?thesis using assms(3) by simp
qed

lemma account_entry_pass:
  assumes vp: "map_of kv ''vp'' = Some (PStr ''vp_user'')"
    and th: "map_of kv ''threshold'' = Some (PInt t)"
    and pk: "map_of kv ''public_keys'' = Some (PList ks)"
    and lo: "1 \<le> t"
    and hi: "t \<le> int (length ks)"
    and keys: "\<And>k. k \<in> set ks \<Longrightarrow> \<exists>s. k = PStr s \<and> bech32_hrp lib s = Some ''tnam''"
  shows "account_entry lib (PDict kv) = Inr True"
proof -
  have present: "has_fields [''vp'', ''threshold'', ''public_keys''] (PDict kv) = Inr True"
    by (simp add: has_fields_def vp th pk)
  have decode: "for_each (hrp_is lib ''tnam'') ks = Inr True"
  proof (rule for_each_all_pass)
    fix k assume "k \<in> set ks"
    then obtain s where "k = PStr s" and "bech32_hrp lib s = Some ''tnam''"
      using keys by blast
    then show "hrp_is lib ''tnam'' k = Inr True"
      by (simp add: hrp_is_def ebind_Inr)
  qed
  have few: "int_lt (int (length ks)) (PInt t) = Inr False"
    using hi by (simp add: int_lt_def)
  have pos: "le_int (PInt t) 0 = Inr False"
    using lo by (simp add: le_int_def)
  show ?thesis
    by (simp add: account_entry_def present ebind_Inr vp th pk few pos decode)
qed

text \<open>
  Claim C4. An account record whose \<open>established_account\<close> entries all have the three
  fields, with \<open>vp\<close> equal to \<open>vp_user\<close>, an integer \<open>threshold\<close> between 1 and the
  number of public keys, and public keys that all decode to the human-readable part
  \<open>tnam\<close>, is accepted: \<open>check_if_account_is_valid\<close> returns True.
\<close>

theorem account_wellformed_accepted:
  assumes "map_of r ''established_account'' = Some (PList es)"
    and "\<forall>e \<in> set es. \<exists>kv t ks.
           e = PDict kv \<and>
           map_of kv ''vp'' = Some (PStr ''vp_user'') \<and>
           map_of kv ''threshold'' = Some (PInt t) \<and>
           map_of kv ''public_keys'' = Some (PList ks) \<and>
           1 \<le> t \<and> t \<le> int (length ks) \<and>
           (\<forall>k \<in> set ks. \<exists>s. k = PStr s \<and> bech32_hrp lib s = Some ''tnam'')"
  shows "check_if_account_is_valid lib (PDict r) = Inr True"
proof -
  have "for_each (account_entry lib) es = Inr True"
  proof (rule for_each_all_pass)
    fix e assume "e \<in> set es"
    with assms(2) obtain kv t ks where
      "e = PDict kv" "map_of kv ''vp'' = Some (PStr ''vp_user'')"
      "map_of kv ''threshold'' = Some (PInt t)"
      "map_of kv ''public_keys'' = Some (PList ks)"
      "1 \<le> t" "t \<le> int (length ks)"
      "\<forall>k \<in> set ks. \<exists>s. k = PStr s \<and> bech32_hrp lib s = Some ''tnam''"
      by blast
    then show "account_entry lib e = Inr True"
      using account_entry_pass [of kv t ks lib] by blast
  qed
  then show ?thesis
    by (simp add: check_if_account_is_valid_def assms(1) ebind_Inr)
qed

theorem account_wellformed_accepted_witness:
  "check_if_account_is_valid example_lib
     (PDict [(''established_account'', PList [good_account])]) = Inr True"
proof -
  have "\<forall>e \<in> set [good_account]. \<exists>kv t ks.
           e = PDict kv \<and>
           map_of kv ''vp'' = Some (PStr ''vp_user'') \<and>
           map_of kv ''threshold'' = Some (PInt t) \<and>
           map_of kv ''public_keys'' = Some (PList ks) \<and>
           1 \<le> t \<and> t \<le> int (length ks) \<and>
           (\<forall>k \<in> set ks. \<exists>s. k = PStr s \<and> bech32_hrp example_lib s = Some ''tnam'')"
    by (simp add: good_account_def example_lib_def)
  then show ?thesis
    using account_wellformed_accepted
      [of "[(''established_account'', PList [good_account])]" "[good_account]" example_lib]
    by simp
qed

lemma fl_neg_pos:
  assumes "fl_lt a (Finite 0)" and "fl_lt (Finite 0) b"
  shows "\<not> fl_is_zero b \<and> fl_ge b a"
  using assms by (cases a; cases b) (auto simp: fl_is_zero_def fl_ge_def)

lemma bond_shape_pass:
  assumes "map_of kv ''source'' = Some src" "map_of kv ''validator'' = Some vl"
    "map_of kv ''amount'' = Some am" "map_of kv ''signatures'' = Some sg"
    "py_len sg = Inr n" "0 < n"
  shows "bond_shape (PDict kv) = Inr True"
  using assms by (simp add: bond_shape_def has_fields_def ebind_Inr)

lemma bond_entry_value:
  assumes "map_of kv ''source'' = Some (PStr s)" "map_of kv ''validator'' = Some (PStr v)"
    "map_of kv ''amount'' = Some am" "map_of kv ''signatures'' = Some sg"
    "py_len sg = Inr n" "0 < n"
    "py_float lib am = Inr a"
    "bech32_hrp lib s = Some ''tkpnam''" "bech32_hrp lib v = Some ''tnam''"
    "balance_of lib balances (PStr s) = Inr b"
  shows "bond_entry lib balances (PDict kv) = Inr (\<not> (fl_is_zero b \<or> \<not> fl_ge b a))"
proof -
  have "bond_shape (PDict kv) = Inr True"
    using assms(1-6) by (rule bond_shape_pass)
  then show ?thesis
    using assms by (simp add: bond_entry_def ebind_Inr hrp_is_def)
qed

lemma fl_reject_iff:
  "(fl_is_zero b \<or> \<not> fl_ge b a) \<longleftrightarrow> (b = Finite 0 \<or> fl_lt b a \<or> a = NaN \<or> b = NaN)"
  by (cases a; cases b) (auto simp: fl_is_zero_def fl_ge_def)

text \<open>
  Claim C10. The bond validator has no lower bound on the amount: a bond record whose
  entries all have the four fields, at least one signature, a source that decodes to
  \<open>tkpnam\<close>, a validator that decodes to \<open>tnam\<close>, a recorded source balance above
  zero and an amount below zero, is accepted.
\<close>

theorem negative_bond_amount_accepted:
  assumes "map_of r ''bond'' = Some (PList bs)"
    and "\<forall>bond \<in> set bs. \<exists>kv s v am sg n a bv b.
           bond = PDict kv \<and>
           map_of kv ''source'' = Some (PStr s) \<and>
           map_of kv ''validator'' = Some (PStr v) \<and>
           map_of kv ''amount'' = Some am \<and>
           map_of kv ''signatures'' = Some sg \<and>
           py_len sg = Inr n \<and> 0 < n \<and>
           bech32_hrp lib s = Some ''tkpnam'' \<and>
           bech32_hrp lib v = Some ''tnam'' \<and>
           map_of balances s = Some bv \<and> py_float lib bv = Inr b \<and> fl_lt (Finite 0) b \<and>
           py_float lib am = Inr a \<and> fl_lt a (Finite 0)"
  shows "check_if_bond_is_valid lib (PDict r) balances = Inr True"
proof -
  have "for_each (bond_entry lib balances) bs = Inr True"
  proof (rule for_each_all_pass)
    fix bond assume "bond \<in> set bs"
    with assms(2) obtain kv s v am sg n a bv b where h:
      "bond = PDict kv" "map_of kv ''source'' = Some (PStr s)"
      "map_of kv ''validator'' = Some (PStr v)" "map_of kv ''amount'' = Some am"
      "map_of kv ''signatures'' = Some sg" "py_len sg = Inr n" "0 < n"
      "bech32_hrp lib s = Some ''tkpnam''" "bech32_hrp lib v = Some ''tnam''"
      "map_of balances s = Some bv" "py_float lib bv = Inr b" "fl_lt (Finite 0) b"
      "py_float lib am = Inr a" "fl_lt a (Finite 0)"
      by blast
    have bal: "balance_of lib balances (PStr s) = Inr b"
      using h(10,11) by (simp add: balance_of_def)
    have "bond_entry lib balances (PDict kv) = Inr (\<not> (fl_is_zero b \<or> \<not> fl_ge b a))"
      using h(2-7) h(13) h(8,9) bal by (rule bond_entry_value)
    then show "bond_entry lib balances bond = Inr True"
      using fl_neg_pos [OF h(14) h(12)] h(1) by simp
  qed
  then show ?thesis
    by (simp add: check_if_bond_is_valid_def assms(1) ebind_Inr)
qed

theorem negative_bond_amount_accepted_witness:
  "check_if_bond_is_valid example_lib (bond_record (PStr ''-5'')) example_nam_balances = Inr True"
proof -
  have "\<forall>bond \<in> set [PDict (bond_with (PStr ''-5''))]. \<exists>kv s v am sg n a bv b.
           bond = PDict kv \<and>
           map_of kv ''source'' = Some (PStr s) \<and>
           map_of kv ''validator'' = Some (PStr v) \<and>
           map_of kv ''amount'' = Some am \<and>
           map_of kv ''signatures'' = Some sg \<and>
           py_len sg = Inr n \<and> 0 < n \<and>
           bech32_hrp example_lib s = Some ''tkpnam'' \<and>
           bech32_hrp example_lib v = Some ''tnam'' \<and>
           map_of example_nam_balances s = Some bv \<and> py_float example_lib bv = Inr b \<and>
           fl_lt (Finite 0) b \<and>
           py_float example_lib am = Inr a \<and> fl_lt a (Finite 0)"
    by (simp add: bond_with_def example_lib_def example_nam_balances_def
        tnam_address_def tkpnam_address_def)
  then show ?thesis
    using negative_bond_amount_accepted
      [of "[(''bond'', PList [PDict (bond_with (PStr ''-5''))])]"
          "[PDict (bond_with (PStr ''-5''))]" example_lib example_nam_balances]
    by (simp add: bond_record_def)
qed

text \<open>
  Claim C5, as stated, fails for NaN. The amount \<^verbatim>\<open>"nan"\<close> parses (to NaN); against
  a recorded balance of 100 and with both addresses decoding, the balance is not zero
  and not below the amount, and yet the bond is rejected: line 145 tests
  \<^verbatim>\<open>not balance >= amount\<close>, which holds when either side is NaN.
\<close>

theorem bond_nan_amount_counterexample:
  "py_float example_lib (PStr ''nan'') = Inr NaN \<and>
   balance_of example_lib example_nam_balances (PStr tkpnam_address) = Inr (Finite 100) \<and>
   \<not> (fl_is_zero (Finite 100) \<or> fl_lt (Finite 100) NaN) \<and>
   hrp_is example_lib ''tkpnam'' (PStr tkpnam_address) = Inr True \<and>
   hrp_is example_lib ''tnam'' (PStr tnam_address) = Inr True \<and>
   check_if_bond_is_valid example_lib (bond_record (PStr ''nan'')) example_nam_balances
     = Inr False"
  by (simp add: example_lib_def example_nam_balances_def balance_of_def fl_is_zero_def
      hrp_is_def ebind_def tkpnam_address_def tnam_address_def bond_record_def bond_with_def
      check_if_bond_is_valid_def bond_entry_def bond_shape_def has_fields_def fl_ge_def)

text \<open>
  Claim C5, amended. Take a bond entry, at any place of the record's \<open>bond\<close> list,
  with the four fields, at least one signature, an amount that parses and addresses that
  decode to \<open>tkpnam\<close> and \<open>tnam\<close>, the other entries of the list passing. Let the
  balance be the recorded balance of the source, or 0 when the source has none. The
  record is rejected exactly when the balance is 0, or the balance is below the amount,
  or the amount or the balance is NaN. So an amount of 0 against a zero or absent
  balance is rejected, and an amount equal to a positive balance is accepted.
\<close>

theorem bond_balance_check:
  assumes "map_of r ''bond'' = Some (PList (pre @ PDict kv # post))"
    and "\<forall>p \<in> set pre \<union> set post. bond_entry lib balances p = Inr True"
    and "map_of kv ''source'' = Some (PStr s)"
    and "map_of kv ''validator'' = Some (PStr v)"
    and "map_of kv ''amount'' = Some am"
    and "map_of kv ''signatures'' = Some sg"
    and "py_len sg = Inr n" and "0 < n"
    and "py_float lib am = Inr a"
    and "bech32_hrp lib s = Some ''tkpnam''"
    and "bech32_hrp lib v = Some ''tnam''"
    and "(map_of balances s = None \<and> b = Finite 0) \<or>
         (\<exists>bv. map_of balances s = Some bv \<and> py_float lib bv = Inr b)"
  shows "check_if_bond_is_valid lib (PDict r) balances
           = Inr (\<not> (b = Finite 0 \<or> fl_lt b a \<or> a = NaN \<or> b = NaN))"
proof -
  have bal: "balance_of lib balances (PStr s) = Inr b"
    using assms(12) by (auto simp: balance_of_def)
  have "bond_entry lib balances (PDict kv) = Inr (\<not> (fl_is_zero b \<or> \<not> fl_ge b a))"
    using assms(3-11) bal by (rule bond_entry_value)
  then have entry: "bond_entry lib balances (PDict kv)
                      = Inr (\<not> (b = Finite 0 \<or> fl_lt b a \<or> a = NaN \<or> b = NaN))"
    by (simp only: fl_reject_iff)
  have "\<And>p. p \<in> set pre \<Longrightarrow> bond_entry lib balances p = Inr True"
    and "\<And>p. p \<in> set post \<Longrightarrow> bond_entry lib balances p = Inr True"
    using assms(2) by auto
  then have "for_each (bond_entry lib balances) (pre @ PDict kv # post)
               = Inr (\<not> (b = Finite 0 \<or> fl_lt b a \<or> a = NaN \<or> b = NaN))"
    using entry by (rule for_each_one_open)
  then show ?thesis
    by (simp add: check_if_bond_is_valid_def assms(1) ebind_Inr)
qed

theorem bond_balance_check_witness:
  "check_if_bond_is_valid example_lib (bond_record (PStr ''100'')) example_nam_balances = Inr True \<and>
   check_if_bond_is_valid example_lib (bond_record (PStr ''0'')) [] = Inr False \<and>
   check_if_bond_is_valid example_lib (bond_record (PStr ''0''))
     [(tkpnam_address, PStr ''0'')] = Inr False \<and>
   check_if_bond_is_valid example_lib
     (PDict [(''bond'', PList [PDict (bond_with (PStr ''50'')), PDict (bond_with (PStr ''nan'')),
                               PDict (bond_with (PStr ''100''))])])
     example_nam_balances = Inr False"
proof -
  have equal: "check_if_bond_is_valid example_lib
                 (PDict [(''bond'', PList [PDict (bond_with (PStr ''100''))])]) example_nam_balances
               = Inr (\<not> (Finite 100 = Finite 0 \<or> fl_lt (Finite 100) (Finite 100) \<or>
                          Finite 100 = NaN \<or> Finite 100 = NaN))"
    by (rule bond_balance_check [where pre = "[]" and post = "[]"
          and kv = "bond_with (PStr ''100'')" and s = tkpnam_address and v = tnam_address
          and am = "PStr ''100''" and sg = "PList [PStr ''sig'']" and n = 1])
       (simp_all add: bond_with_def example_lib_def example_nam_balances_def
          tkpnam_address_def tnam_address_def)
  have absent: "check_if_bond_is_valid example_lib
                  (PDict [(''bond'', PList [PDict (bond_with (PStr ''0''))])]) []
                = Inr (\<not> (Finite 0 = Finite 0 \<or> fl_lt (Finite 0) (Finite 0) \<or>
                           Finite 0 = NaN \<or> Finite 0 = NaN))"
    by (rule bond_balance_check [where pre = "[]" and post = "[]"
          and kv = "bond_with (PStr ''0'')" and s = tkpnam_address and v = tnam_address
          and am = "PStr ''0''" and sg = "PList [PStr ''sig'']" and n = 1])
       (simp_all add: bond_with_def example_lib_def tkpnam_address_def tnam_address_def)
  have zero: "check_if_bond_is_valid example_lib
                (PDict [(''bond'', PList [PDict (bond_with (PStr ''0''))])])
                [(tkpnam_address, PStr ''0'')]
              = Inr (\<not> (Finite 0 = Finite 0 \<or> fl_lt (Finite 0) (Finite 0) \<or>
                         Finite 0 = NaN \<or> Finite 0 = NaN))"
    by (rule bond_balance_check [where pre = "[]" and post = "[]"
          and kv = "bond_with (PStr ''0'')" and s = tkpnam_address and v = tnam_address
          and am = "PStr ''0''" and sg = "PList [PStr ''sig'']" and n = 1])
       (simp_all add: bond_with_def example_lib_def tkpnam_address_def tnam_address_def)
  have before: "bond_entry example_lib example_nam_balances (PDict (bond_with (PStr ''50''))) = Inr True"
    by code_simp
  have after: "bond_entry example_lib example_nam_balances (PDict (bond_with (PStr ''100''))) = Inr True"
    by code_simp
  have others: "\<forall>p \<in> set [PDict (bond_with (PStr ''50''))] \<union> set [PDict (bond_with (PStr ''100''))].
                  bond_entry example_lib example_nam_balances p = Inr True"
    using before after by simp
  have middle: "check_if_bond_is_valid example_lib
               (PDict [(''bond'', PList ([PDict (bond_with (PStr ''50''))] @
                                        PDict (bond_with (PStr ''nan'')) #
                                        [PDict (bond_with (PStr ''100''))]))])
               example_nam_balances
             = Inr (\<not> (Finite 100 = Finite 0 \<or> fl_lt (Finite 100) NaN \<or>
                        NaN = NaN \<or> Finite 100 = NaN))"
    by (rule bond_balance_check [where pre = "[PDict (bond_with (PStr ''50''))]"
          and post = "[PDict (bond_with (PStr ''100''))]"
          and kv = "bond_with (PStr ''nan'')" and s = tkpnam_address and v = tnam_address
          and am = "PStr ''nan''" and sg = "PList [PStr ''sig'']" and n = 1, OF _ others])
       (simp_all add: bond_with_def example_lib_def example_nam_balances_def
          tkpnam_address_def tnam_address_def)
  show ?thesis
    using equal absent zero middle by (simp add: bond_record_def)
qed

lemma in_unit_interval_iff:
  "in_unit_interval x \<longleftrightarrow> (\<exists>q. x = Finite q \<and> 0 \<le> q \<and> q \<le> 1)"
  by (cases x) (auto simp: in_unit_interval_def)

lemma validator_entry_rates:
  assumes "validator_shape (PDict kv) = Inr True"
    and "map_of kv ''vp'' = Some (PStr ''vp_user'')"
    and "map_of kv ''metadata'' = Some (PDict md)"
    and "map_of md ''email'' = Some (PStr em)" and "email_match em"
    and "map_of kv ''address'' = Some (PStr ad)" and "bech32_hrp lib ad = Some ''tnam''"
    and "map_of kv ''commission_rate'' = Some cr" and "py_float lib cr = Inr x"
    and "map_of kv ''max_commission_rate_change'' = Some mcr" and "py_float lib mcr = Inr y"
  shows "validator_entry lib (PDict kv) = Inr (in_unit_interval x \<and> in_unit_interval y)"
  using assms by (simp add: validator_entry_def ebind_Inr hrp_is_def)

lemma validator_entry_raises:
  assumes "validator_shape (PDict kv) = Inr True"
    and "map_of kv ''vp'' = Some vp"
    and "map_of kv ''commission_rate'' = Some cr"
    and "map_of kv ''max_commission_rate_change'' = Some mcr"
    and "py_float lib cr = Inl e \<or> (\<exists>x. py_float lib cr = Inr x) \<and> py_float lib mcr = Inl e"
  shows "validator_entry lib (PDict kv) = Inl e"
  using assms by (auto simp: validator_entry_def ebind_Inr ebind_Inl)

lemma bond_entry_raises:
  assumes "bond_shape (PDict kv) = Inr True"
    and "map_of kv ''source'' = Some src"
    and "map_of kv ''validator'' = Some vl"
    and "map_of kv ''amount'' = Some am"
    and "py_float lib am = Inl e"
  shows "bond_entry lib balances (PDict kv) = Inl e"
  using assms by (simp add: bond_entry_def ebind_Inr ebind_Inl)

text \<open>
  Claim C6. The validator validator keeps \<open>commission_rate\<close> and
  \<open>max_commission_rate_change\<close> in the closed interval from 0 to 1, each on its own:
  when the account part of the record passes, the record has no \<open>bond\<close> key, the other
  entries pass and every other check of an entry passes, the record is accepted exactly
  when both of the entry's rates are numbers between 0 and 1, the ends included.
\<close>

theorem commission_rates_closed_unit_interval:
  assumes "check_if_account_is_valid lib (PDict r) = Inr True"
    and "map_of r ''bond'' = None"
    and "map_of r ''validator_account'' = Some (PList (pre @ PDict kv # post))"
    and "\<forall>p \<in> set pre \<union> set post. validator_entry lib p = Inr True"
    and "validator_shape (PDict kv) = Inr True"
    and "map_of kv ''vp'' = Some (PStr ''vp_user'')"
    and "map_of kv ''metadata'' = Some (PDict md)"
    and "map_of md ''email'' = Some (PStr em)" and "email_match em"
    and "map_of kv ''address'' = Some (PStr ad)" and "bech32_hrp lib ad = Some ''tnam''"
    and "map_of kv ''commission_rate'' = Some cr" and "py_float lib cr = Inr x"
    and "map_of kv ''max_commission_rate_change'' = Some mcr" and "py_float lib mcr = Inr y"
  shows "check_if_validator_is_valid lib (PDict r)
           = Inr ((\<exists>q. x = Finite q \<and> 0 \<le> q \<and> q \<le> 1) \<and> (\<exists>q. y = Finite q \<and> 0 \<le> q \<and> q \<le> 1))"
proof -
  have "validator_entry lib (PDict kv) = Inr (in_unit_interval x \<and> in_unit_interval y)"
    using assms(5-15) by (rule validator_entry_rates)
  moreover have "\<And>p. p \<in> set pre \<Longrightarrow> validator_entry lib p = Inr True"
    and "\<And>p. p \<in> set post \<Longrightarrow> validator_entry lib p = Inr True"
    using assms(4) by auto
  ultimately have "for_each (validator_entry lib) (pre @ PDict kv # post)
                     = Inr (in_unit_interval x \<and> in_unit_interval y)"
    by (simp only: for_each_one_open)
  then show ?thesis
    by (simp add: check_if_validator_is_valid_def assms(1,2,3) ebind_Inr in_unit_interval_iff)
qed

lemma example_validator_shape: "validator_shape (PDict (validator_with rate change)) = Inr True"
  by (simp add: validator_shape_def validator_with_def key_slot_def has_fields_def
      has_sub_fields_def ebind_Inr)

lemma example_account_part:
  "check_if_account_is_valid example_lib (PDict (validator_record rate change)) = Inr True"
  by (simp add: check_if_account_is_valid_def validator_record_def good_account_def
      account_entry_def has_fields_def ebind_Inr int_lt_def le_int_def hrp_is_def
      example_lib_def)

lemma example_email: "email_match ''alice@example.org''"
  by (simp add: is_space_def newline_def)

theorem commission_rates_closed_unit_interval_witness:
  "check_if_validator_is_valid example_lib
     (PDict (validator_record (PFloat (Finite 1)) (PFloat (Finite 1)))) = Inr True \<and>
   check_if_validator_is_valid example_lib
     (PDict (validator_record (PFloat (Finite 0)) (PFloat (Finite 0)))) = Inr True \<and>
   check_if_validator_is_valid example_lib
     (PDict (validator_record (PFloat just_above_one) (PFloat (Finite 1)))) = Inr False \<and>
   check_if_validator_is_valid example_lib
     (PDict (validator_record (PFloat just_below_zero) (PFloat (Finite 1)))) = Inr False \<and>
   check_if_validator_is_valid example_lib
     (PDict (validator_record (PFloat (Finite 1)) (PFloat just_above_one))) = Inr False \<and>
   check_if_validator_is_valid example_lib
     (PDict (validator_record (PFloat (Finite 1)) (PFloat just_below_zero))) = Inr False"
proof -
  have at: "check_if_validator_is_valid example_lib (PDict (validator_record (PFloat x) (PFloat y)))
            = Inr ((\<exists>q. x = Finite q \<and> 0 \<le> q \<and> q \<le> 1) \<and> (\<exists>q. y = Finite q \<and> 0 \<le> q \<and> q \<le> 1))"
    for x y
  proof (rule commission_rates_closed_unit_interval
      [where pre = "[]" and post = "[]" and kv = "validator_with (PFloat x) (PFloat y)"
         and md = "[(''email'', PStr ''alice@example.org'')]" and em = "''alice@example.org''"
         and ad = tnam_address and cr = "PFloat x" and mcr = "PFloat y"])
    show "check_if_account_is_valid example_lib (PDict (validator_record (PFloat x) (PFloat y))) = Inr True"
      by (rule example_account_part)
    show "validator_shape (PDict (validator_with (PFloat x) (PFloat y))) = Inr True"
      by (rule example_validator_shape)
    show "email_match ''alice@example.org''"
      by (rule example_email)
  qed (simp_all add: validator_record_def validator_with_def example_lib_def good_account_def)
  show ?thesis
    by (simp add: at just_above_one_def just_below_zero_def)
qed

lemma example_bond_shape: "bond_shape (PDict (bond_with amount)) = Inr True"
  by (simp add: bond_shape_def bond_with_def has_fields_def ebind_Inr)

text \<open>
  Claim C3, as stated, fails: nothing catches the exception of \<^verbatim>\<open>float\<close>. A
  validator entry whose \<open>commission_rate\<close> or \<open>max_commission_rate_change\<close> is
  \<^verbatim>\<open>"abc"\<close>, and a bond entry whose \<open>amount\<close> is \<^verbatim>\<open>"abc"\<close>, make the validator
  raise ValueError; it does not return False.
\<close>

theorem unparseable_number_counterexample:
  "check_if_validator_is_valid example_lib
     (PDict (validator_record (PStr ''abc'') (PStr ''0.5''))) = Inl ValueError \<and>
   check_if_validator_is_valid example_lib
     (PDict (validator_record (PStr ''0.5'') (PStr ''abc''))) = Inl ValueError \<and>
   check_if_bond_is_valid example_lib (bond_record (PStr ''abc'')) example_nam_balances
     = Inl ValueError"
  by code_simp

text \<open>
  Claim C3, amended. An entry that gets as far as the conversion of a number that
  \<^verbatim>\<open>float\<close> cannot convert makes the validator raise the exception of \<^verbatim>\<open>float\<close>
  (ValueError for a string, TypeError for a list, a table or a date), not return False.
  For a validator record: the account part passes, there is no \<open>bond\<close> key, the
  entries before pass, the entry has its fields, sub-fields and a signature, and
  \<open>commission_rate\<close> does not convert, or it does and \<open>max_commission_rate_change\<close>
  does not. For a bond record: the entries before pass, the entry has its four fields and
  a signature, and \<open>amount\<close> does not convert.
\<close>

theorem unparseable_number_raises:
  "(check_if_account_is_valid lib (PDict r) = Inr True \<and>
    map_of r ''bond'' = None \<and>
    map_of r ''validator_account'' = Some (PList (pre @ PDict kv # post)) \<and>
    (\<forall>p \<in> set pre. validator_entry lib p = Inr True) \<and>
    validator_shape (PDict kv) = Inr True \<and>
    map_of kv ''commission_rate'' = Some cr \<and>
    map_of kv ''max_commission_rate_change'' = Some mcr \<and>
    (py_float lib cr = Inl e \<or> (\<exists>x. py_float lib cr = Inr x) \<and> py_float lib mcr = Inl e)
    \<longrightarrow> check_if_validator_is_valid lib (PDict r) = Inl e) \<and>
   (map_of r' ''bond'' = Some (PList (pre' @ PDict kv' # post')) \<and>
    (\<forall>p \<in> set pre'. bond_entry lib balances p = Inr True) \<and>
    bond_shape (PDict kv') = Inr True \<and>
    map_of kv' ''amount'' = Some am \<and>
    py_float lib am = Inl e'
    \<longrightarrow> check_if_bond_is_valid lib (PDict r') balances = Inl e')"
proof (intro conjI impI)
  assume h: "check_if_account_is_valid lib (PDict r) = Inr True \<and>
    map_of r ''bond'' = None \<and>
    map_of r ''validator_account'' = Some (PList (pre @ PDict kv # post)) \<and>
    (\<forall>p \<in> set pre. validator_entry lib p = Inr True) \<and>
    validator_shape (PDict kv) = Inr True \<and>
    map_of kv ''commission_rate'' = Some cr \<and>
    map_of kv ''max_commission_rate_change'' = Some mcr \<and>
    (py_float lib cr = Inl e \<or> (\<exists>x. py_float lib cr = Inr x) \<and> py_float lib mcr = Inl e)"
  then have shape: "validator_shape (PDict kv) = Inr True" by blast
  then obtain vp where vp: "map_of kv ''vp'' = Some vp"
    by (cases "map_of kv ''vp''")
       (auto simp: validator_shape_def has_fields_def ebind_def split: sum.splits if_splits)
  have "validator_entry lib (PDict kv) = Inl e"
    using shape vp h by (intro validator_entry_raises) blast+
  moreover have "\<And>p. p \<in> set pre \<Longrightarrow> validator_entry lib p = Inr True"
    using h by blast
  ultimately have "for_each (validator_entry lib) (pre @ PDict kv # post) = Inl e"
    by (simp add: for_each_first_failure)
  then show "check_if_validator_is_valid lib (PDict r) = Inl e"
    using h by (simp add: check_if_validator_is_valid_def ebind_Inr)
next
  assume h: "map_of r' ''bond'' = Some (PList (pre' @ PDict kv' # post')) \<and>
    (\<forall>p \<in> set pre'. bond_entry lib balances p = Inr True) \<and>
    bond_shape (PDict kv') = Inr True \<and>
    map_of kv' ''amount'' = Some am \<and>
    py_float lib am = Inl e'"
  then have shape: "bond_shape (PDict kv') = Inr True" by blast
  then obtain src where src: "map_of kv' ''source'' = Some src"
    by (cases "map_of kv' ''source''")
       (auto simp: bond_shape_def has_fields_def ebind_def split: sum.splits if_splits)
  from shape obtain vl where vl: "map_of kv' ''validator'' = Some vl"
    by (cases "map_of kv' ''validator''")
       (auto simp: bond_shape_def has_fields_def ebind_def split: sum.splits if_splits)
  have "bond_entry lib balances (PDict kv') = Inl e'"
    using shape src vl h by (intro bond_entry_raises) blast+
  moreover have "\<And>p. p \<in> set pre' \<Longrightarrow> bond_entry lib balances p = Inr True"
    using h by blast
  ultimately have "for_each (bond_entry lib balances) (pre' @ PDict kv' # post') = Inl e'"
    by (simp add: for_each_first_failure)
  then show "check_if_bond_is_valid lib (PDict r') balances = Inl e'"
    using h by (simp add: check_if_bond_is_valid_def ebind_Inr)
qed

theorem unparseable_number_raises_witness:
  "check_if_validator_is_valid example_lib
     (PDict (validator_record (PStr ''0.5'') (PList []))) = Inl TypeError \<and>
   check_if_bond_is_valid example_lib
     (PDict [(''bond'', PList [PDict (bond_with (PStr ''50'')), PDict (bond_with (PStr ''ten''))])])
     example_nam_balances = Inl ValueError"
proof -
  have first: "bond_entry example_lib example_nam_balances (PDict (bond_with (PStr ''50''))) = Inr True"
    by code_simp
  have "(check_if_account_is_valid example_lib (PDict (validator_record (PStr ''0.5'') (PList []))) = Inr True \<and>
    map_of (validator_record (PStr ''0.5'') (PList [])) ''bond'' = None \<and>
    map_of (validator_record (PStr ''0.5'') (PList [])) ''validator_account''
      = Some (PList ([] @ PDict (validator_with (PStr ''0.5'') (PList [])) # [])) \<and>
    (\<forall>p \<in> set []. validator_entry example_lib p = Inr True) \<and>
    validator_shape (PDict (validator_with (PStr ''0.5'') (PList []))) = Inr True \<and>
    map_of (validator_with (PStr ''0.5'') (PList [])) ''commission_rate'' = Some (PStr ''0.5'') \<and>
    map_of (validator_with (PStr ''0.5'') (PList [])) ''max_commission_rate_change'' = Some (PList []) \<and>
    (py_float example_lib (PStr ''0.5'') = Inl TypeError \<or>
     (\<exists>x. py_float example_lib (PStr ''0.5'') = Inr x) \<and> py_float example_lib (PList []) = Inl TypeError))"
    by (simp add: example_account_part example_validator_shape)
       (simp add: validator_record_def validator_with_def example_lib_def)
  moreover have "(map_of [(''bond'', PList [PDict (bond_with (PStr ''50'')), PDict (bond_with (PStr ''ten''))])] ''bond''
       = Some (PList ([PDict (bond_with (PStr ''50''))] @ PDict (bond_with (PStr ''ten'')) # [])) \<and>
    (\<forall>p \<in> set [PDict (bond_with (PStr ''50''))]. bond_entry example_lib example_nam_balances p = Inr True) \<and>
    bond_shape (PDict (bond_with (PStr ''ten''))) = Inr True \<and>
    map_of (bond_with (PStr ''ten'')) ''amount'' = Some (PStr ''ten'') \<and>
    py_float example_lib (PStr ''ten'') = Inl ValueError)"
    by (simp add: first example_bond_shape) (simp add: bond_with_def example_lib_def)
  ultimately show ?thesis
    using unparseable_number_raises
      [of example_lib "validator_record (PStr ''0.5'') (PList [])" "[]"
          "validator_with (PStr ''0.5'') (PList [])" "[]" "PStr ''0.5''" "PList []" TypeError
          "[(''bond'', PList [PDict (bond_with (PStr ''50'')), PDict (bond_with (PStr ''ten''))])]"
          "[PDict (bond_with (PStr ''50''))]" "bond_with (PStr ''ten'')" "[]"
          example_nam_balances "PStr ''ten''" ValueError]
    by blast
qed

text \<open>
  Claim C7, as stated, fails: the account part runs before the test for the \<open>bond\<close>
  key, and it raises on a record that has a \<open>bond\<close> key and no
  \<open>established_account\<close> key. The validator raises KeyError; it does not return False.
\<close>

theorem validator_with_bond_counterexample:
  "check_if_validator_is_valid example_lib
     (PDict [(''bond'', PList [PDict (bond_with (PStr ''50''))]),
             (''validator_account'', PList [PDict (validator_with (PStr ''0.5'') (PStr ''0.5''))])])
   = Inl KeyError"
  by code_simp

text \<open>
  Claim C7, amended. A validator record with a top-level \<open>bond\<close> key is never
  accepted, whatever its other fields are: the validator returns False whenever the
  account part of the record returns a verdict, and raises the exception of the account
  part otherwise.
\<close>

theorem validator_with_bond_never_accepted:
  assumes "map_of r ''bond'' = Some b"
  shows "check_if_validator_is_valid lib (PDict r) \<noteq> Inr True \<and>
         (\<forall>verdict. check_if_account_is_valid lib (PDict r) = Inr verdict
            \<longrightarrow> check_if_validator_is_valid lib (PDict r) = Inr False) \<and>
         (\<forall>e. check_if_account_is_valid lib (PDict r) = Inl e
            \<longrightarrow> check_if_validator_is_valid lib (PDict r) = Inl e)"
proof (cases "check_if_account_is_valid lib (PDict r)")
  case (Inl e)
  then show ?thesis
    by (simp add: check_if_validator_is_valid_def ebind_Inl)
next
  case (Inr verdict)
  then show ?thesis
    using assms by (simp add: check_if_validator_is_valid_def ebind_Inr)
qed

theorem validator_with_bond_never_accepted_witness:
  "check_if_validator_is_valid example_lib
     (PDict (validator_record (PStr ''0.5'') (PStr ''0.5''))) = Inr True \<and>
   check_if_validator_is_valid example_lib
     (PDict ((''bond'', PList []) # validator_record (PStr ''0.5'') (PStr ''0.5''))) = Inr False"
proof -
  have without: "check_if_validator_is_valid example_lib
                   (PDict (validator_record (PStr ''0.5'') (PStr ''0.5''))) = Inr True"
    by code_simp
  have account: "check_if_account_is_valid example_lib
                   (PDict ((''bond'', PList []) # validator_record (PStr ''0.5'') (PStr ''0.5'')))
                 = Inr True"
    by code_simp
  have "map_of ((''bond'', PList []) # validator_record (PStr ''0.5'') (PStr ''0.5'')) ''bond''
          = Some (PList [])"
    by simp
  from validator_with_bond_never_accepted [OF this, of example_lib] account
  have "check_if_validator_is_valid example_lib
          (PDict ((''bond'', PList []) # validator_record (PStr ''0.5'') (PStr ''0.5''))) = Inr False"
    by blast
  with without show ?thesis by simp
qed

text \<open>
  Claim C8, as stated, fails: the order of the entries decides between a verdict and an
  exception. With an entry whose \<open>vp\<close> is wrong before an entry whose \<open>threshold\<close>
  is a string, the validator returns False; with the two entries swapped it raises
  TypeError at the comparison of line 64.
\<close>

theorem account_order_counterexample:
  "check_if_account_is_valid example_lib
     (PDict [(''established_account'', PList [admin_account, text_threshold_account])])
   = Inr False \<and>
   check_if_account_is_valid example_lib
     (PDict [(''established_account'', PList [text_threshold_account, admin_account])])
   = Inl TypeError"
  by code_simp

text \<open>
  Claim C8, amended. For an account record and a record that has a permutation of its
  \<open>established_account\<close> entries: the validator returns True on one exactly when it
  returns True on the other, and when it returns a verdict on both (raises on neither),
  the two verdicts are the same.
\<close>

theorem account_verdict_under_permutation:
  assumes "mset es' = mset es"
    and "map_of r ''established_account'' = Some (PList es)"
    and "map_of r' ''established_account'' = Some (PList es')"
  shows "(check_if_account_is_valid lib (PDict r) = Inr True
            \<longleftrightarrow> check_if_account_is_valid lib (PDict r') = Inr True) \<and>
         (\<forall>verdict verdict'.
            check_if_account_is_valid lib (PDict r) = Inr verdict \<and>
            check_if_account_is_valid lib (PDict r') = Inr verdict'
            \<longrightarrow> verdict = verdict')"
proof -
  have same: "set es' = set es"
    using assms(1) by (rule mset_eq_setD)
  have r: "check_if_account_is_valid lib (PDict r) = for_each (account_entry lib) es"
    by (simp add: check_if_account_is_valid_def assms(2) ebind_Inr)
  have r': "check_if_account_is_valid lib (PDict r') = for_each (account_entry lib) es'"
    by (simp add: check_if_account_is_valid_def assms(3) ebind_Inr)
  have accepted: "for_each (account_entry lib) es = Inr True
                    \<longleftrightarrow> for_each (account_entry lib) es' = Inr True"
    by (simp only: for_each_True_iff same)
  show ?thesis
  proof (intro conjI allI impI)
    show "check_if_account_is_valid lib (PDict r) = Inr True
            \<longleftrightarrow> check_if_account_is_valid lib (PDict r') = Inr True"
      by (simp only: r r' accepted)
  next
    fix verdict verdict'
    assume "check_if_account_is_valid lib (PDict r) = Inr verdict \<and>
            check_if_account_is_valid lib (PDict r') = Inr verdict'"
    then have "for_each (account_entry lib) es = Inr verdict"
      and "for_each (account_entry lib) es' = Inr verdict'"
      by (simp_all add: r r')
    with accepted show "verdict = verdict'"
      by (cases verdict; cases verdict') simp_all
  qed
qed

theorem account_verdict_under_permutation_witness:
  "mset [admin_account, good_account] = mset [good_account, admin_account] \<and>
   check_if_account_is_valid example_lib
     (PDict [(''established_account'', PList [good_account, admin_account])]) = Inr False \<and>
   check_if_account_is_valid example_lib
     (PDict [(''established_account'', PList [admin_account, good_account])]) = Inr False"
proof -
  have perm: "mset [admin_account, good_account] = mset [good_account, admin_account]"
    by (simp add: add.commute)
  have one: "check_if_account_is_valid example_lib
               (PDict [(''established_account'', PList [good_account, admin_account])]) = Inr False"
    by code_simp
  have other: "check_if_account_is_valid example_lib
               (PDict [(''established_account'', PList [admin_account, good_account])]) = Inr False"
    by code_simp
  show ?thesis
    using account_verdict_under_permutation
      [OF perm, of "[(''established_account'', PList [good_account, admin_account])]"
         "[(''established_account'', PList [admin_account, good_account])]" example_lib]
      perm one other
    by simp
qed

lemma print_line_frame [simp]:
  "loads (print_line line w) = loads w" "files (print_line line w) = files w"
  by (simp_all add: print_line_def)

lemma run_track_frame:
  assumes "run_track check missing file w = (w', res)"
  shows "loads w' = loads w @ [file] \<and> files w' = files w"
  using assms
  by (auto simp: run_track_def read_unsafe_toml_def load_toml_def Let_def
      split: sum.splits prod.splits if_splits)

lemma balances_file_on_no_track:
  "\<not> substr ''-account.toml'' ''genesis/balances.toml''"
  "\<not> substr ''-validator.toml'' ''genesis/balances.toml''"
  "\<not> substr ''-bond.toml'' ''genesis/balances.toml''"
  by code_simp+

lemma track_file_is_not_balances:
  assumes "substr ''-account.toml'' path \<or> substr ''-validator.toml'' path \<or>
           substr ''-bond.toml'' path"
  shows "path \<noteq> ''genesis/balances.toml''"
  using assms balances_file_on_no_track by blast

lemma validate_toml_frame:
  assumes "validate_toml lib file cv cb ca w = (w', res)"
  shows "count_list (loads w') ''genesis/balances.toml''
           = count_list (loads w) ''genesis/balances.toml'' + 1 \<and> files w' = files w"
proof (cases "files w ''genesis/balances.toml''")
  case (Inl e)
  with assms have "w' = w\<lparr>loads := loads w @ [''genesis/balances.toml'']\<rparr>"
    by (simp add: validate_toml_def load_toml_def)
  then show ?thesis by simp
next
  case (Inr balances)
  let ?w1 = "w\<lparr>loads := loads w @ [''genesis/balances.toml'']\<rparr>"
  have start: "count_list (loads ?w1) ''genesis/balances.toml''
                = count_list (loads w) ''genesis/balances.toml'' + 1 \<and> files ?w1 = files w"
    by simp
  show ?thesis
  proof (cases "ebind (py_getitem balances ''token'') (\<lambda>token. py_getitem token ''NAM'')")
    case (Inl e)
    with assms Inr have "w' = ?w1"
      by (simp add: validate_toml_def load_toml_def)
    with start show ?thesis by simp
  next
    case nam: (Inr nam_balances)
    have unfolded: "validate_toml lib file cv cb ca w =
        (if substr ''-account.toml'' file \<and> truthy ca then
           run_track (check_if_account_is_valid lib) (\<lambda>v. v = PNone) file ?w1
         else if substr ''-validator.toml'' file \<and> truthy cv then
           run_track (check_if_validator_is_valid lib) (\<lambda>v. v = PNone) file ?w1
         else if substr ''-bond.toml'' file \<and> truthy cb then
           run_track (bond_check lib nam_balances) (\<lambda>v. \<not> truthy v) file ?w1
         else (?w1, Inr (PBool False)))"
      by (simp add: validate_toml_def load_toml_def Inr nam)
    have on_track: ?thesis
      if run: "run_track check missing file ?w1 = (w', res)"
        and suffix: "substr ''-account.toml'' file \<or> substr ''-validator.toml'' file \<or>
                     substr ''-bond.toml'' file"
      for check missing
    proof -
      have "file \<noteq> ''genesis/balances.toml''"
        using suffix by (rule track_file_is_not_balances)
      moreover have "loads w' = loads ?w1 @ [file]" and "files w' = files ?w1"
        using run_track_frame [OF run] by blast+
      ultimately show ?thesis
        using start by (simp only: count_list_append count_list.simps) simp
    qed
    show ?thesis
    proof (cases "substr ''-account.toml'' file \<and> truthy ca")
      case True
      then have "run_track (check_if_account_is_valid lib) (\<lambda>v. v = PNone) file ?w1 = (w', res)"
        using assms unfolded by simp
      moreover from True have "substr ''-account.toml'' file \<or> substr ''-validator.toml'' file \<or>
                     substr ''-bond.toml'' file" by blast
      ultimately show ?thesis by (rule on_track)
    next
      case no_account: False
      show ?thesis
      proof (cases "substr ''-validator.toml'' file \<and> truthy cv")
        case True
        then have "run_track (check_if_validator_is_valid lib) (\<lambda>v. v = PNone) file ?w1 = (w', res)"
          using assms unfolded no_account by simp
        moreover from True have "substr ''-account.toml'' file \<or> substr ''-validator.toml'' file \<or>
                     substr ''-bond.toml'' file" by blast
      ultimately show ?thesis by (rule on_track)
      next
        case no_validator: False
        show ?thesis
        proof (cases "substr ''-bond.toml'' file \<and> truthy cb")
          case True
          then have "run_track (bond_check lib nam_balances) (\<lambda>v. \<not> truthy v) file ?w1 = (w', res)"
            using assms unfolded no_account no_validator by simp
          moreover from True have "substr ''-account.toml'' file \<or> substr ''-validator.toml'' file \<or>
                     substr ''-bond.toml'' file" by blast
      ultimately show ?thesis by (rule on_track)
        next
          case False
          then have "w' = ?w1"
            using assms unfolded no_account no_validator by (auto split: if_splits)
          with start show ?thesis by (simp only:)
        qed
      qed
    qed
  qed
qed

lemma main_loop_frame:
  assumes "main_loop lib cv cb ca name changed w = (w', Inr ())"
  shows "count_list (loads w') ''genesis/balances.toml''
           = count_list (loads w) ''genesis/balances.toml''
             + length (filter (\<lambda>path. \<not> passed_over path) changed) \<and>
         files w' = files w"
  using assms
proof (induction changed arbitrary: w)
  case Nil
  then show ?case by simp
next
  case (Cons f rest)
  let ?w1 = "print_line (f @ '' is allowed, checking if its valid...'') w"
  have inner: "(if passed_over f then main_loop lib cv cb ca name rest ?w1
                else (case validate_toml lib f cv cb ca ?w1 of
                        (w2, Inl e) \<Rightarrow> (w2, Inl e)
                      | (w2, Inr r) \<Rightarrow> main_loop lib cv cb ca name rest w2)) = (w', Inr ())"
    using Cons.prems
    by (simp only: main_loop.simps Let_def split: if_splits sum.splits) auto
  show ?case
  proof (cases "passed_over f")
    case True
    with inner have "main_loop lib cv cb ca name rest ?w1 = (w', Inr ())"
      by simp
    from Cons.IH [OF this] True show ?thesis by simp
  next
    case False
    obtain w2 res where step: "validate_toml lib f cv cb ca ?w1 = (w2, res)"
      by (cases "validate_toml lib f cv cb ca ?w1")
    with inner False have rest: "main_loop lib cv cb ca name rest w2 = (w', Inr ())"
      by (cases res) simp_all
    from validate_toml_frame [OF step] Cons.IH [OF rest] False show ?thesis by simp
  qed
qed

text \<open>
  Claim C9, as stated, fails: \<^verbatim>\<open>validate_toml\<close> loads the balances file itself
  (line 160), and the run calls it once for every file. A run over two added bond files
  loads \<^verbatim>\<open>genesis/balances.toml\<close> twice.
\<close>

theorem balances_loaded_per_file_counterexample:
  "snd (main example_lib dispatch_world) = Inr () \<and>
   loads (fst (main example_lib dispatch_world)) =
     [''genesis/balances.toml'', ''transactions/alice-bond.toml'',
      ''genesis/balances.toml'', ''transactions/alice2-bond.toml'']"
  by code_simp

text \<open>
  Claim C9, amended. The balances file is loaded once in every call of the dispatcher:
  a run that ends without an exception has loaded it once for every added file that
  line 211 does not pass over (whether or not the dispatcher then skips the file), and
  the run changes no file: what a path loads to is the same after the run as before.
\<close>

theorem balances_loaded_once_per_file:
  assumes "main lib w = (w', Inr ())"
  shows "count_list (loads w') ''genesis/balances.toml''
           = count_list (loads w) ''genesis/balances.toml''
             + length (filter (\<lambda>path. \<not> passed_over path) (snd (git_diff w ''A''))) \<and>
         files w' = files w"
proof -
  from assms obtain cv cb ca name changed where
    created: "get_all_created_files w = Inr changed"
    and loop: "main_loop lib cv cb ca name changed
                 (print_line (''Found '' @ show_nat (length changed) @ '' file changed/added.'') w)
               = (w', Inr ())"
    by (auto simp: main_def split: sum.splits prod.splits)
  from created have "snd (git_diff w ''A'') = changed"
    by (auto simp: get_all_created_files_def split: prod.splits if_splits)
  with main_loop_frame [OF loop] show ?thesis by simp
qed

theorem balances_loaded_once_per_file_witness:
  "snd (main example_lib dispatch_world) = Inr () \<and>
   count_list (loads (fst (main example_lib dispatch_world))) ''genesis/balances.toml'' = 2 \<and>
   files (fst (main example_lib dispatch_world)) = files dispatch_world"
proof -
  have finished: "snd (main example_lib dispatch_world) = Inr ()"
    by code_simp
  then have run: "main example_lib dispatch_world = (fst (main example_lib dispatch_world), Inr ())"
    by (simp add: prod_eq_iff)
  have before: "count_list (loads dispatch_world) ''genesis/balances.toml'' = 0"
    by code_simp
  have added: "length (filter (\<lambda>path. \<not> passed_over path) (snd (git_diff dispatch_world ''A''))) = 2"
    by code_simp
  show ?thesis
    using balances_loaded_once_per_file [OF run] finished before added by simp
qed

text \<open>
  Claim C1 fails on the code. When loading the file fails, \<^verbatim>\<open>validate_toml\<close> prints
  that the file is not valid and then, having no \<^verbatim>\<open>return\<close> there, calls the
  validator on None; the validator subscripts None and TypeError leaves the dispatcher.
  This is so on each of the three tracks.
\<close>

theorem load_failure_raises:
  "snd (read_unsafe_toml ''transactions/carol-account.toml'' dispatch_world) = PNone \<and>
   check_if_account_is_valid example_lib PNone = Inl TypeError \<and>
   (let (w, result) = validate_toml example_lib ''transactions/carol-account.toml''
                        (PStr ''true'') (PStr ''true'') (PStr ''true'') dispatch_world
    in (stdout w, result))
   = ([''transactions/carol-account.toml is NOT valid.''], Inl TypeError) \<and>
   (let (w, result) = validate_toml example_lib ''transactions/carol-validator.toml''
                        (PStr ''true'') (PStr ''true'') (PStr ''true'') dispatch_world
    in (stdout w, result))
   = ([''transactions/carol-validator.toml is NOT valid.''], Inl TypeError) \<and>
   (let (w, result) = validate_toml example_lib ''transactions/carol-bond.toml''
                        (PStr ''true'') (PStr ''true'') (PStr ''true'') dispatch_world
    in (stdout w, result))
   = ([''transactions/carol-bond.toml is NOT valid.''], Inl TypeError)"
  by code_simp

text \<open>
  Claim C2 fails on the code. When the validator returns False, \<^verbatim>\<open>validate_toml\<close>
  prints that the file is not valid and then, having no \<^verbatim>\<open>return\<close> or
  \<^verbatim>\<open>else\<close>, goes on to line 187 and prints that the file is valid: two lines for one
  file. When the validator returns True there is the one line.
\<close>

theorem invalid_file_reported_twice:
  "check_if_account_is_valid example_lib
     (PDict [(''established_account'', PList [admin_account])]) = Inr False \<and>
   (let (w, result) = validate_toml example_lib ''transactions/alice-account.toml''
                        (PStr ''true'') (PStr ''true'') (PStr ''true'') dispatch_world
    in (stdout w, result))
   = ([''transactions/alice-account.toml is NOT valid.'',
       ''transactions/alice-account.toml is valid.''], Inr PNone) \<and>
   check_if_bond_is_valid example_lib (bond_record (PStr ''50'')) example_nam_balances = Inr True \<and>
   (let (w, result) = validate_toml example_lib ''transactions/alice-bond.toml''
                        (PStr ''true'') (PStr ''true'') (PStr ''true'') dispatch_world
    in (stdout w, result))
   = ([''transactions/alice-bond.toml is valid.''], Inr PNone)"
  by code_simp

end
